theory Spec2Isabelle
  imports Complex_Main "HOL-Library.Sublist"
begin

section \<open>The client pipeline of app.py\<close>

text \<open>
  The dashboard script app.py has four helper stages with testable logic:
  \<^verbatim>\<open>validate_image\<close>, \<^verbatim>\<open>preprocess_image\<close>, \<^verbatim>\<open>get_predictions\<close> and the result
  display (top prediction, confidence bucket, ranked rows), plus the update of the
  session's stored predictions. They are embedded here function by function.

  Three collaborators are libraries, not code of the repository: the image library
  (\<^verbatim>\<open>PIL.Image\<close>), the HTTP transport (\<^verbatim>\<open>requests.post\<close>) and the JSON decoder
  (\<^verbatim>\<open>response.json()\<close>). Each is a parameter of the model: a record of functions whose
  results say whether the call returned or raised. Exceptions are values: a call that may
  raise returns a sum, \<open>Inl\<close> carrying the exception (what \<^verbatim>\<open>str(e)\<close> would print, and
  for the transport which handler catches it).
\<close>

subsection \<open>Constants\<close>

definition TORCHSERVE_URL :: string where
  "TORCHSERVE_URL = ''http://localhost:8080/predictions/resnet''"

definition MAX_FILE_SIZE :: nat where
  "MAX_FILE_SIZE = 10 * 1024 * 1024"

definition REQUEST_TIMEOUT :: nat where
  "REQUEST_TIMEOUT = 30"

subsection \<open>Uploaded files and images\<close>

type_synonym bytes = "char list"

text \<open>
  The uploaded file is a seekable in-memory stream: its bytes, the size attribute the
  upload widget reports, and the read position that \<^verbatim>\<open>seek\<close> sets and reads advance.
\<close>

record uploaded_file =
  file_name :: string
  file_size :: nat
  content :: bytes
  pos :: nat

text \<open>
  A decoded image, as far as the script looks at it: the colour mode (a string, as in
  \<^verbatim>\<open>image.mode == 'RGBA'\<close>), the dimensions, whether the palette carries a
  transparency entry, and the pixel data.
\<close>

record image =
  mode :: string
  width :: nat
  height :: nat
  transparency :: bool
  pixels :: "nat list"

text \<open>
  The image library. \<open>open_image\<close> is \<^verbatim>\<open>Image.open(fp)\<close>: it returns the image or
  raises, and leaves the stream at some position. \<open>verify\<close> is \<^verbatim>\<open>image.verify()\<close>,
  reading further from the same stream: \<open>Some e\<close> when it raises. \<open>convert\<close> is
  \<^verbatim>\<open>image.convert(mode)\<close> and \<open>save_jpeg\<close> is
  \<^verbatim>\<open>image.save(buf, format='JPEG', quality=q)\<close> followed by \<^verbatim>\<open>buf.getvalue()\<close>.
\<close>

record pillow =
  open_image :: "uploaded_file \<Rightarrow> (string + image) \<times> nat"
  verify :: "image \<Rightarrow> uploaded_file \<Rightarrow> string option \<times> nat"
  convert :: "image \<Rightarrow> string \<Rightarrow> image"
  save_jpeg :: "image \<Rightarrow> nat \<Rightarrow> string + bytes"

subsection \<open>validate_image\<close>

text \<open>
  \<^verbatim>\<open>
  def validate_image(uploaded_file):
      if uploaded_file.size > MAX_FILE_SIZE:
          return False, "File size exceeds 10MB limit."
      try:
          image = Image.open(uploaded_file)
          image.verify()
          uploaded_file.seek(0)
          return True, None
      except Exception as e:
          return False, f"Invalid image file: {str(e)}"
  \<close>
  The result is the returned pair together with the file as the call leaves it. The
  \<^verbatim>\<open>seek(0)\<close> is the last statement of the \<^verbatim>\<open>try\<close> body, so it runs only when neither
  call raised.
\<close>

definition validate_image ::
  "pillow \<Rightarrow> uploaded_file \<Rightarrow> (bool \<times> string option) \<times> uploaded_file" where
  "validate_image lib f =
     (if file_size f > MAX_FILE_SIZE then ((False, Some ''File size exceeds 10MB limit.''), f)
      else
        (case open_image lib f of
           (Inl e, p1) \<Rightarrow> ((False, Some (''Invalid image file: '' @ e)), f\<lparr>pos := p1\<rparr>)
         | (Inr img, p1) \<Rightarrow>
             (case verify lib img (f\<lparr>pos := p1\<rparr>) of
                (Some e, p2) \<Rightarrow> ((False, Some (''Invalid image file: '' @ e)), f\<lparr>pos := p2\<rparr>)
              | (None, p2) \<Rightarrow> ((True, None), f\<lparr>pos := 0\<rparr>))))"

text \<open>
  What "decodable" means for a buffer: the verify-only decode attempt on its own, the
  two library calls of the \<^verbatim>\<open>try\<close> body without the script around them. It gives the
  decoder's error, if any, and the position at which the decoder leaves the stream.
\<close>

definition decode_attempt :: "pillow \<Rightarrow> uploaded_file \<Rightarrow> string option \<times> nat" where
  "decode_attempt lib f =
     (case open_image lib f of
        (Inl e, p1) \<Rightarrow> (Some e, p1)
      | (Inr img, p1) \<Rightarrow> verify lib img (f\<lparr>pos := p1\<rparr>))"

subsection \<open>preprocess_image\<close>






subsection \<open>Numbers and their text\<close>

text \<open>
  Python's \<^verbatim>\<open>str\<close> of a non-negative integer: its decimal digits.
\<close>

definition digit_char :: "nat \<Rightarrow> char" where
  "digit_char n = ''0123456789'' ! (n mod 10)"

function str_nat :: "nat \<Rightarrow> string" where
  "str_nat n = (if n < 10 then [digit_char n] else str_nat (n div 10) @ [digit_char (n mod 10)])"
  by pat_completeness auto
termination
  by (relation "measure (\<lambda>n. n)") auto

definition str_int :: "int \<Rightarrow> string" where
  "str_int i = (if i < 0 then CHR ''-'' # str_nat (nat (- i)) else str_nat (nat i))"

text \<open>
  A Python float is a 64-bit binary floating-point number. A finite one is modelled by
  the rational number it denotes; infinities and NaN are outside the model. A literal of
  the script, a number decoded from JSON and the result of an arithmetic operation are
  each the exact value rounded to the nearest float, ties to the even significand
  (53 bits; the exponent bounded below by the subnormal range, overflow not modelled).
\<close>

definition round_half_even :: "rat \<Rightarrow> int" where
  "round_half_even x =
     (let f = \<lfloor>x\<rfloor>; r = x - of_int f
      in if r < 1 / 2 then f else if 1 / 2 < r then f + 1 else if even f then f else f + 1)"

function bit_length :: "int \<Rightarrow> nat" where
  "bit_length n = (if n \<le> 0 then 0 else Suc (bit_length (n div 2)))"
  by pat_completeness auto
termination
  by (relation "measure (\<lambda>n. nat n)") auto

definition pow2 :: "int \<Rightarrow> rat" where
  "pow2 e = (if 0 \<le> e then 2 ^ nat e else 1 / 2 ^ nat (- e))"

text \<open>The binary exponent of a non-zero rational: the \<open>e\<close> with \<open>2\<^sup>e \<le> \<bar>x\<bar> < 2\<^sup>e\<^sup>+\<^sup>1\<close>.\<close>

definition float_exponent :: "rat \<Rightarrow> int" where
  "float_exponent x =
     (case quotient_of \<bar>x\<bar> of
        (p, q) \<Rightarrow>
          (let e = int (bit_length p) - int (bit_length q)
           in if pow2 e \<le> \<bar>x\<bar> then e else e - 1))"

definition float64 :: "rat \<Rightarrow> rat" where
  "float64 x =
     (if x = 0 then 0
      else (let e = max (float_exponent x) (- 1022); ulp = pow2 (e - 52)
            in of_int (round_half_even (x / ulp)) * ulp))"

definition fmul :: "rat \<Rightarrow> rat \<Rightarrow> rat" where
  "fmul a b = float64 (a * b)"

text \<open>
  The format specification \<^verbatim>\<open>.df\<close> applied to a float: the exact value rounded to
  \<open>d\<close> decimals (ties to even), the sign kept also when the digits are all zero, at
  least one digit before the point and exactly \<open>d\<close> after it.
\<close>

definition py_format_f :: "nat \<Rightarrow> rat \<Rightarrow> string" where
  "py_format_f d x =
     (let n = nat (round_half_even (\<bar>x\<bar> * 10 ^ d));
          frac = str_nat (n mod 10 ^ d)
      in (if x < 0 then ''-'' else []) @ str_nat (n div 10 ^ d) @
         (if d = 0 then [] else ''.'' @ replicate (d - length frac) (CHR ''0'') @ frac))"

subsection \<open>format_confidence\<close>


subsection \<open>get_predictions\<close>

text \<open>
  The values the JSON decoder produces are Python values: \<^verbatim>\<open>null\<close> decodes to
  \<^verbatim>\<open>None\<close>, an object to a dictionary that keeps the order of its keys, an array to a
  list.
\<close>

datatype pyval =
  PNone
| PBool bool
| PInt int
| PFloat rat
| PStr string
| PList "pyval list"
| PDict "(string \<times> pyval) list"

text \<open>
  \<^verbatim>\<open>str\<close> of a value, as an f-string field prints it. The text of floats, lists and
  dictionaries is left to a parameter.
\<close>

fun py_str :: "(pyval \<Rightarrow> string) \<Rightarrow> pyval \<Rightarrow> string" where
  "py_str r (PStr s) = s"
| "py_str r PNone = ''None''"
| "py_str r (PBool b) = (if b then ''True'' else ''False'')"
| "py_str r (PInt i) = str_int i"
| "py_str r v = r v"

record response =
  status_code :: int
  body_text :: string

text \<open>
  An exception, as the handlers of \<^verbatim>\<open>get_predictions\<close> see it: whether it is an
  instance of \<^verbatim>\<open>requests.exceptions.ConnectionError\<close>, whether it is an instance of
  \<^verbatim>\<open>requests.exceptions.Timeout\<close> (a connect timeout is both), and its \<^verbatim>\<open>str\<close>. Only
  subclasses of \<^verbatim>\<open>Exception\<close> are modelled.
\<close>

record exn =
  is_connection_error :: bool
  is_timeout :: bool
  description :: string

text \<open>
  The services the function calls: \<^verbatim>\<open>requests.post(url, data, timeout, headers)\<close>,
  which returns a response or raises; \<^verbatim>\<open>response.json()\<close>, which decodes the body or
  raises a decode error with the given description; and \<^verbatim>\<open>repr\<close> for the values whose
  text \<open>py_str\<close> leaves open.
\<close>

record services =
  http_post :: "string \<Rightarrow> bytes \<Rightarrow> nat \<Rightarrow> (string \<times> string) list \<Rightarrow> exn + response"
  json_loads :: "string \<Rightarrow> string + pyval"
  py_repr :: "pyval \<Rightarrow> string"

text \<open>
  \<^verbatim>\<open>
  def get_predictions(image_bytes):
      try:
          response = requests.post(TORCHSERVE_URL, data=image_bytes,
              timeout=REQUEST_TIMEOUT,
              headers={'Content-Type': 'application/octet-stream'})
          if response.status_code == 200:
              predictions = response.json()
              return True, predictions, None
          else:
              error_msg = f"Server returned status {response.status_code}"
              try:
                  error_detail = response.json()
                  error_msg += f": {error_detail.get('message', response.text)}"
              except:
                  error_msg += f": {response.text[:200]}"
              return False, None, error_msg
      except requests.exceptions.ConnectionError:
          return False, None, "Cannot connect to TorchServe. ..."
      except requests.exceptions.Timeout:
          return False, None, f"Request timed out after {REQUEST_TIMEOUT} seconds."
      except Exception as e:
          return False, None, f"Unexpected error: {str(e)}"
  \<close>
  The three handlers, tried in the order written:
\<close>

definition handle_exception :: "exn \<Rightarrow> bool \<times> pyval \<times> string option" where
  "handle_exception e =
     (if is_connection_error e then
        (False, PNone,
         Some ''Cannot connect to TorchServe. Please ensure Docker container is running on port 8080.'')
      else if is_timeout e then
        (False, PNone, Some (''Request timed out after '' @ str_nat REQUEST_TIMEOUT @ '' seconds.''))
      else (False, PNone, Some (''Unexpected error: '' @ description e)))"

text \<open>The decode error that \<^verbatim>\<open>response.json()\<close> raises is neither of the first two.\<close>

definition json_decode_error :: "string \<Rightarrow> exn" where
  "json_decode_error d = \<lparr>is_connection_error = False, is_timeout = False, description = d\<rparr>"

text \<open>
  The detail appended to the message of a non-200 response. The inner \<^verbatim>\<open>try\<close> decodes
  the body and calls \<^verbatim>\<open>.get('message', response.text)\<close> on the result: a dictionary
  answers with the field or, without one, with the whole body text; any other value
  has no \<^verbatim>\<open>get\<close>, which raises like a body that does not decode, and the bare
  \<^verbatim>\<open>except\<close> appends the first 200 characters of the body.
\<close>

definition error_detail :: "services \<Rightarrow> response \<Rightarrow> string" where
  "error_detail env r =
     (case json_loads env (body_text r) of
        Inr (PDict d) \<Rightarrow>
          (case map_of d ''message'' of
             Some v \<Rightarrow> py_str (py_repr env) v
           | None \<Rightarrow> body_text r)
      | _ \<Rightarrow> take 200 (body_text r))"

text \<open>The one request the function makes.\<close>

definition send_request :: "services \<Rightarrow> bytes \<Rightarrow> exn + response" where
  "send_request env image_bytes =
     http_post env TORCHSERVE_URL image_bytes REQUEST_TIMEOUT
       [(''Content-Type'', ''application/octet-stream'')]"

definition get_predictions :: "services \<Rightarrow> bytes \<Rightarrow> bool \<times> pyval \<times> string option" where
  "get_predictions env image_bytes =
     (case send_request env image_bytes of
        Inl e \<Rightarrow> handle_exception e
      | Inr r \<Rightarrow>
          if status_code r = 200 then
            (case json_loads env (body_text r) of
               Inl d \<Rightarrow> handle_exception (json_decode_error d)
             | Inr predictions \<Rightarrow> (True, predictions, None))
          else
            (False, PNone,
             Some (''Server returned status '' @ str_int (status_code r) @ '': '' @
                   error_detail env r)))"

text \<open>
  The shape the spec expects of a success body: an object whose values are all numbers.
\<close>

fun is_number :: "pyval \<Rightarrow> bool" where
  "is_number (PInt i) = True"
| "is_number (PFloat x) = True"
| "is_number v = False"

fun is_label_score_mapping :: "pyval \<Rightarrow> bool" where
  "is_label_score_mapping (PDict d) = list_all (\<lambda>kv. is_number (snd kv)) d"
| "is_label_score_mapping v = False"

subsection \<open>The session's stored result\<close>

text \<open>
  \<^verbatim>\<open>
  if success:
      st.session_state.predictions = predictions
      st.session_state.analysis_time = analysis_time
  else:
      st.error(...)
      st.session_state.predictions = None
  \<close>
  The session starts with both entries \<^verbatim>\<open>None\<close>.
\<close>

record session_state =
  predictions :: pyval
  analysis_time :: "rat option"





subsection \<open>The result display\<close>

text \<open>
  The display runs when the stored predictions are truthy, on a mapping from labels to
  confidences in the order received (a Python dictionary keeps insertion order, so it is
  an association list here).
  \<^verbatim>\<open>
  best_label = list(predictions.keys())[0]
  best_score = list(predictions.values())[0]
  ...
  delta="High" if best_score > 0.7 else "Medium" if best_score > 0.4 else "Low"
  ...
  for idx, (label, confidence) in enumerate(predictions.items(), 1):
      score_pct = confidence * 100
      ...
      st.markdown(f"**{score_pct:.1f}%**")
  \<close>
\<close>

definition delta :: "rat \<Rightarrow> string" where
  "delta best_score =
     (if best_score > float64 (7 / 10) then ''High''
      else if best_score > float64 (4 / 10) then ''Medium'' else ''Low'')"

text \<open>Indexing a list at 0 raises on the empty list: \<open>None\<close>.\<close>

definition first_item :: "'a list \<Rightarrow> 'a option" where
  "first_item xs = (case xs of [] \<Rightarrow> None | x # _ \<Rightarrow> Some x)"

definition top_summary :: "(string \<times> rat) list \<Rightarrow> (string \<times> rat \<times> string) option" where
  "top_summary preds =
     (case first_item (map fst preds) of
        None \<Rightarrow> None
      | Some best_label \<Rightarrow>
          (case first_item (map snd preds) of
             None \<Rightarrow> None
           | Some best_score \<Rightarrow> Some (best_label, best_score, delta best_score)))"

definition row_percentage :: "rat \<Rightarrow> string" where
  "row_percentage confidence = py_format_f 1 (fmul confidence 100) @ ''%''"

text \<open>
  A row of the ranked list: the loop's index, label and confidence, and the markdown of
  the value column.
\<close>

definition ranked_rows :: "(string \<times> rat) list \<Rightarrow> (nat \<times> string \<times> rat \<times> string) list" where
  "ranked_rows preds =
     map (\<lambda>(idx, (label, confidence)).
            (idx, label, confidence, ''**'' @ row_percentage confidence @ ''**''))
         (enumerate 1 preds)"

subsection \<open>A small image library for concrete runs\<close>

text \<open>
  Concrete runs need a concrete library. \<open>toy_pillow\<close> is a test double with the
  behaviour of the real one that the script depends on:
  \<^item> opening rewinds the stream and reads a 16-byte prefix to identify the format (the
    real library does \<^verbatim>\<open>fp.seek(0)\<close> and \<^verbatim>\<open>prefix = fp.read(16)\<close> first) and
    raises "cannot identify image file" when no format accepts it, leaving the stream
    after the prefix;
  \<^item> the JPEG writer accepts the modes 1, L, RGB, RGBX, CMYK and YCbCr and raises
    "cannot write mode M as JPEG" for any other (the real writer's mode table);
  \<^item> converting to a mode keeps the dimensions.
  Its file format is a toy one: the mode, a colon, then one \<open>w\<close> per pixel column and
  one \<open>h\<close> per pixel row.
\<close>

definition toy_encode :: "image \<Rightarrow> bytes" where
  "toy_encode img =
     mode img @ '':'' @ replicate (width img) (CHR ''w'') @ replicate (height img) (CHR ''h'')"

definition toy_modes :: "string list" where
  "toy_modes = [''1'', ''L'', ''LA'', ''P'', ''PA'', ''RGB'', ''RGBA'', ''RGBX'', ''CMYK'', ''YCbCr'']"

definition toy_decode :: "bytes \<Rightarrow> string + image" where
  "toy_decode b =
     (let m = takeWhile (\<lambda>c. c \<noteq> CHR '':'') b; rest = dropWhile (\<lambda>c. c \<noteq> CHR '':'') b
      in if rest \<noteq> [] \<and> m \<in> set toy_modes
         then Inr \<lparr>mode = m,
                   width = length (filter (\<lambda>c. c = CHR ''w'') rest),
                   height = length (filter (\<lambda>c. c = CHR ''h'') rest),
                   transparency = False, pixels = []\<rparr>
         else Inl ''cannot identify image file'')"

definition jpeg_modes :: "string list" where
  "jpeg_modes = [''1'', ''L'', ''RGB'', ''RGBX'', ''CMYK'', ''YCbCr'']"

definition toy_pillow :: pillow where
  "toy_pillow =
     \<lparr>open_image = (\<lambda>f. (toy_decode (content f), min 16 (length (content f)))),
      verify = (\<lambda>img f. (None, length (content f))),
      convert = (\<lambda>img m. img\<lparr>mode := m\<rparr>),
      save_jpeg = (\<lambda>img q. if mode img \<in> set jpeg_modes then Inr (toy_encode img)
                           else Inl (''cannot write mode '' @ mode img @ '' as JPEG''))\<rparr>"

text \<open>Uploads and images for the concrete runs.\<close>

definition garbage_upload :: uploaded_file where
  "garbage_upload =
     \<lparr>file_name = ''notes.png'', file_size = 20, content = ''this is not an image'', pos = 0\<rparr>"

definition huge_garbage_upload :: uploaded_file where
  "huge_garbage_upload =
     \<lparr>file_name = ''big.png'', file_size = 10485761,
      content = replicate 10485761 (CHR ''x''), pos = 0\<rparr>"



subsection \<open>A mocked endpoint for concrete runs\<close>

text \<open>
  The mocked endpoint answers every request with a fixed status and body. Its JSON
  decoder knows the bodies used below and rejects every other text the way the real
  decoder rejects text that is not JSON.
\<close>

definition oom_body :: string where
  \<open>oom_body = ''{"message": "OOM"}''\<close>

definition dog_body :: string where
  \<open>dog_body = ''{"dog": 0.91, "cat": 0.05, "fox": 0.04}''\<close>

definition dog_predictions :: "(string \<times> rat) list" where
  "dog_predictions =
     [(''dog'', float64 (91 / 100)), (''cat'', float64 (5 / 100)), (''fox'', float64 (4 / 100))]"

definition mock_json_loads :: "string \<Rightarrow> string + pyval" where
  "mock_json_loads s =
     (if s = oom_body then Inr (PDict [(''message'', PStr ''OOM'')])
      else if s = dog_body then Inr (PDict (map (\<lambda>(l, c). (l, PFloat c)) dog_predictions))
      else if s = ''null'' then Inr PNone
      else if s = ''[1, 2]'' then Inr (PList [PInt 1, PInt 2])
      else Inl ''Expecting value: line 1 column 1 (char 0)'')"

definition mock_server :: "int \<Rightarrow> string \<Rightarrow> services" where
  "mock_server code body =
     \<lparr>http_post = (\<lambda>url data timeout headers. Inr \<lparr>status_code = code, body_text = body\<rparr>),
      json_loads = mock_json_loads,
      py_repr = (\<lambda>v. ''...'')\<rparr>"

text \<open>An endpoint that refuses connections, and one that does not answer in time.\<close>

definition failing_server :: "exn \<Rightarrow> services" where
  "failing_server e =
     \<lparr>http_post = (\<lambda>url data timeout headers. Inl e),
      json_loads = mock_json_loads,
      py_repr = (\<lambda>v. ''...'')\<rparr>"

definition connection_refused :: exn where
  "connection_refused =
     \<lparr>is_connection_error = True, is_timeout = False,
      description = ''Max retries exceeded: Connection refused''\<rparr>"

definition read_timeout :: exn where
  "read_timeout =
     \<lparr>is_connection_error = False, is_timeout = True, description = ''Read timed out.''\<rparr>"

definition toy_upload :: uploaded_file where
  "toy_upload = \<lparr>file_name = ''cat.png'', file_size = 9, content = ''RGB:wwhhh'', pos = 0\<rparr>"

section \<open>Theorems\<close>

declare str_nat.simps [simp del]
declare bit_length.simps [simp del]

subsection \<open>Image validator\<close>

text \<open>
  C3. For every upload whose size attribute is strictly larger than the ceiling of
  10 MiB, \<open>validate_image\<close> returns Invalid with the size-limit reason, whatever the
  content is and whatever the image library would do with it: the result does not depend
  on the library, and the file is handed back as it was, so no decode is attempted.
\<close>

theorem validate_image_too_large:
  assumes "file_size f > MAX_FILE_SIZE"
  shows "MAX_FILE_SIZE = 10 * 2 ^ 20 \<and>
         validate_image lib f = ((False, Some ''File size exceeds 10MB limit.''), f)"
  using assms by (simp add: validate_image_def MAX_FILE_SIZE_def)

theorem validate_image_too_large_witness:
  "MAX_FILE_SIZE = 10 * 2 ^ 20 \<and>
   validate_image toy_pillow huge_garbage_upload =
     ((False, Some ''File size exceeds 10MB limit.''), huge_garbage_upload)"
  by (rule validate_image_too_large) (simp add: MAX_FILE_SIZE_def huge_garbage_upload_def)

text \<open>
  On the success path the stream is rewound: a buffer within the ceiling that decodes
  is reported valid and handed back at position 0.
\<close>

theorem validate_image_valid_resets:
  assumes "file_size f \<le> MAX_FILE_SIZE" and "decode_attempt lib f = (None, p)"
  shows "validate_image lib f = ((True, None), f\<lparr>pos := 0\<rparr>)"
  using assms
  by (auto simp: validate_image_def decode_attempt_def split: prod.splits sum.splits option.splits)

theorem validate_image_valid_resets_witness:
  "decode_attempt toy_pillow toy_upload = (None, 9) \<and>
   validate_image toy_pillow toy_upload = ((True, None), toy_upload)"
  using validate_image_valid_resets [of toy_upload toy_pillow 9]
  by (simp add: decode_attempt_def toy_pillow_def toy_upload_def toy_decode_def toy_modes_def
        MAX_FILE_SIZE_def)

text \<open>
  C1, as the code has it. For every buffer within the size ceiling that is not decodable
  as an image (the decode attempt ends with the decoder's error \<open>e\<close>),
  \<open>validate_image\<close> returns Invalid with the reason "Invalid image file: " followed
  by \<open>e\<close>, and the bytes of the buffer are untouched. The rewind of the read position
  belongs to the success path, as shown above; the \<^verbatim>\<open>except\<close> branch returns
  without one.
\<close>

theorem validate_image_undecodable:
  assumes "file_size f \<le> MAX_FILE_SIZE" and "fst (decode_attempt lib f) = Some e"
  shows "fst (validate_image lib f) = (False, Some (''Invalid image file: '' @ e)) \<and>
         content (snd (validate_image lib f)) = content f"
  using assms
  by (auto simp: validate_image_def decode_attempt_def split: prod.splits sum.splits option.splits)

theorem validate_image_undecodable_witness:
  "fst (validate_image toy_pillow garbage_upload) =
     (False, Some ''Invalid image file: cannot identify image file'') \<and>
   content (snd (validate_image toy_pillow garbage_upload)) = ''this is not an image''"
  using validate_image_undecodable
          [of garbage_upload toy_pillow "''cannot identify image file''"]
  by (simp add: decode_attempt_def toy_pillow_def garbage_upload_def toy_decode_def
        toy_modes_def MAX_FILE_SIZE_def)

text \<open>
  The claim as stated fails twice. A 20-byte text file is not decodable; validation
  rejects it with the decode reason but leaves the stream at position 16, not at the
  position 0 it had. And an undecodable buffer above the ceiling is rejected with the
  size reason, not with a decode reason.
\<close>

theorem validate_image_undecodable_counterexample:
  "fst (decode_attempt toy_pillow garbage_upload) = Some ''cannot identify image file'' \<and>
   pos garbage_upload = 0 \<and>
   pos (snd (validate_image toy_pillow garbage_upload)) = 16 \<and>
   fst (decode_attempt toy_pillow huge_garbage_upload) = Some ''cannot identify image file'' \<and>
   fst (validate_image toy_pillow huge_garbage_upload) =
     (False, Some ''File size exceeds 10MB limit.'')"
  by (simp add: validate_image_def decode_attempt_def toy_pillow_def garbage_upload_def
        huge_garbage_upload_def toy_decode_def toy_modes_def MAX_FILE_SIZE_def)

subsection \<open>Image normalizer\<close>







subsection \<open>Inference client\<close>

lemma sublist_take_append: "sublist (take n t) (ps @ t)"
proof -
  have "ps @ t = ps @ take n t @ drop n t"
    by simp
  then show ?thesis
    by (metis sublist_appendI)
qed

lemma str_int_500: "str_int 500 = ''500''"
  by code_simp

text \<open>
  C4. For every response with a status other than 200, \<open>get_predictions\<close> returns a
  failure whose message is "Server returned status ", the status code, ": " and a detail.
  The message includes the status code; when the body decodes as a JSON object with a
  \<open>message\<close> field it includes that field's value, and otherwise it includes the first
  200 characters of the raw body (for an object without the field the detail is the whole
  body text, which starts with them).
\<close>

theorem get_predictions_server_error:
  assumes "send_request env b = Inr r" and "status_code r \<noteq> 200"
  shows "\<exists>msg. get_predictions env b = (False, PNone, Some msg) \<and>
           msg = ''Server returned status '' @ str_int (status_code r) @ '': '' @
                 error_detail env r \<and>
           sublist (str_int (status_code r)) msg \<and>
           (case json_loads env (body_text r) of
              Inr (PDict d) \<Rightarrow>
                (case map_of d ''message'' of
                   Some v \<Rightarrow> sublist (py_str (py_repr env) v) msg
                 | None \<Rightarrow> sublist (take 200 (body_text r)) msg)
            | _ \<Rightarrow> sublist (take 200 (body_text r)) msg)"
proof -
  let ?head = "''Server returned status '' @ str_int (status_code r) @ '': ''"
  let ?msg = "?head @ error_detail env r"
  have res: "get_predictions env b = (False, PNone, Some ?msg)"
    using assms by (simp add: get_predictions_def)
  have code: "sublist (str_int (status_code r)) ?msg"
    by (metis append_assoc sublist_appendI)
  have detail: "sublist (error_detail env r) ?msg"
    by (rule sublist_append_leftI)
  have body: "sublist (take 200 (body_text r)) (?head @ body_text r)"
    by (rule sublist_take_append)
  have cases: "(case json_loads env (body_text r) of
              Inr (PDict d) \<Rightarrow>
                (case map_of d ''message'' of
                   Some v \<Rightarrow> sublist (py_str (py_repr env) v) ?msg
                 | None \<Rightarrow> sublist (take 200 (body_text r)) ?msg)
            | _ \<Rightarrow> sublist (take 200 (body_text r)) ?msg)"
    using detail body
    by (auto simp: error_detail_def split: sum.splits pyval.splits option.splits)
  show ?thesis
    using res code cases by (intro exI[of _ ?msg]) simp
qed

theorem get_predictions_server_error_witness:
  "get_predictions (mock_server 500 oom_body) ''jpeg'' =
     (False, PNone, Some ''Server returned status 500: OOM'') \<and>
   sublist ''500'' ''Server returned status 500: OOM'' \<and>
   sublist ''OOM'' ''Server returned status 500: OOM''"
  using get_predictions_server_error
          [of "mock_server 500 oom_body" "''jpeg''" "\<lparr>status_code = 500, body_text = oom_body\<rparr>"]
  by (simp add: send_request_def mock_server_def mock_json_loads_def error_detail_def
        str_int_500)

text \<open>
  C7, as the code has it. For every response with status 200: when the body is not valid
  JSON, \<open>get_predictions\<close> returns a failure with the message "Unexpected error: "
  followed by the decoder's description, and raises nothing; when the body is valid JSON,
  it returns success with the decoded value, whatever that value is. The shape of the
  value is not checked.
\<close>

theorem get_predictions_ok_status:
  assumes "send_request env b = Inr r" and "status_code r = 200"
  shows "get_predictions env b =
           (case json_loads env (body_text r) of
              Inl d \<Rightarrow> (False, PNone, Some (''Unexpected error: '' @ d))
            | Inr v \<Rightarrow> (True, v, None))"
  using assms
  by (simp add: get_predictions_def handle_exception_def json_decode_error_def
        split: sum.splits)

theorem get_predictions_ok_status_witness:
  "get_predictions (mock_server 200 ''<html>busy</html>'') ''jpeg'' =
     (False, PNone, Some ''Unexpected error: Expecting value: line 1 column 1 (char 0)'')"
  using get_predictions_ok_status
          [of "mock_server 200 ''<html>busy</html>''" "''jpeg''"
              "\<lparr>status_code = 200, body_text = ''<html>busy</html>''\<rparr>"]
  by (simp add: send_request_def mock_server_def mock_json_loads_def oom_body_def dog_body_def)

text \<open>
  A status-200 body that is a JSON array is not a mapping from labels to numbers, and it
  comes back as a success carrying the array.
\<close>

theorem get_predictions_ok_status_counterexample:
  "\<not> is_label_score_mapping (PList [PInt 1, PInt 2]) \<and>
   get_predictions (mock_server 200 ''[1, 2]'') ''jpeg'' = (True, PList [PInt 1, PInt 2], None)"
  by (simp add: get_predictions_def send_request_def mock_server_def mock_json_loads_def
        oom_body_def dog_body_def)

text \<open>
  C10, as the code has it. For every payload and every behaviour of transport and
  decoder, \<open>get_predictions\<close> returns a triple (every exception is handled) in which
  the success flag is true exactly when the error message is \<^verbatim>\<open>None\<close>. Without success
  the predictions are \<^verbatim>\<open>None\<close>; with success they are the decoded body of a status-200
  response, which is \<^verbatim>\<open>None\<close> when the body is the JSON literal \<^verbatim>\<open>null\<close>.
\<close>

theorem get_predictions_triple:
  "case get_predictions env b of
     (success, preds, err) \<Rightarrow>
       (success \<longleftrightarrow> err = None) \<and>
       (if success
        then \<exists>r. send_request env b = Inr r \<and> status_code r = 200 \<and>
                 json_loads env (body_text r) = Inr preds
        else preds = PNone)"
proof (cases "send_request env b")
  case (Inl e)
  then show ?thesis
    by (simp add: get_predictions_def handle_exception_def)
next
  case (Inr r)
  show ?thesis
  proof (cases "status_code r = 200")
    case False
    with Inr show ?thesis
      by (simp add: get_predictions_def)
  next
    case True
    show ?thesis
    proof (cases "json_loads env (body_text r)")
      case (Inl d)
      with Inr True show ?thesis
        by (simp add: get_predictions_def handle_exception_def)
    next
      case (Inr v)
      with \<open>send_request env b = Inr r\<close> True show ?thesis
        by (simp add: get_predictions_def)
    qed
  qed
qed

theorem get_predictions_triple_witness:
  "case get_predictions (mock_server 503 ''busy'') ''jpeg'' of
     (success, preds, err) \<Rightarrow> \<not> success \<and> err \<noteq> None \<and> preds = PNone"
  using get_predictions_triple [of "mock_server 503 ''busy''" "''jpeg''"]
  by (simp add: get_predictions_def send_request_def mock_server_def split: prod.splits)

text \<open>
  A status-200 response whose body is \<^verbatim>\<open>null\<close>: the success flag is true and the
  predictions are \<^verbatim>\<open>None\<close>.
\<close>

theorem get_predictions_triple_counterexample:
  "get_predictions (mock_server 200 ''null'') ''jpeg'' = (True, PNone, None)"
  by (simp add: get_predictions_def send_request_def mock_server_def mock_json_loads_def
        oom_body_def dog_body_def)

text \<open>
  An unreachable endpoint gives a failure whose message tells the operator to check that
  the server is running.
\<close>

theorem get_predictions_connection_error:
  assumes "send_request env b = Inl e" and "is_connection_error e"
  shows "get_predictions env b =
           (False, PNone,
            Some ''Cannot connect to TorchServe. Please ensure Docker container is running on port 8080.'')"
  using assms by (simp add: get_predictions_def handle_exception_def)

theorem get_predictions_connection_error_witness:
  "get_predictions (failing_server connection_refused) ''jpeg'' =
     (False, PNone,
      Some ''Cannot connect to TorchServe. Please ensure Docker container is running on port 8080.'')"
  using get_predictions_connection_error
          [of "failing_server connection_refused" "''jpeg''" connection_refused]
  by (simp add: send_request_def failing_server_def connection_refused_def)

lemma str_nat_30: "str_nat 30 = ''30''"
  by code_simp

text \<open>
  A request that times out (and is not a connection error) gives a failure whose message
  states the timeout of 30 seconds.
\<close>

theorem get_predictions_timeout:
  assumes "send_request env b = Inl e" and "\<not> is_connection_error e" and "is_timeout e"
  shows "get_predictions env b = (False, PNone, Some ''Request timed out after 30 seconds.'')"
  using assms
  by (simp add: get_predictions_def handle_exception_def REQUEST_TIMEOUT_def str_nat_30)

theorem get_predictions_timeout_witness:
  "get_predictions (failing_server read_timeout) ''jpeg'' =
     (False, PNone, Some ''Request timed out after 30 seconds.'')"
  using get_predictions_timeout [of "failing_server read_timeout" "''jpeg''" read_timeout]
  by (simp add: send_request_def failing_server_def read_timeout_def)

subsection \<open>Session state\<close>




subsection \<open>Rounding and the float model\<close>

text \<open>
  Rounding to an integer is off by at most a half. The binary exponent brackets its
  argument between two powers of two, and \<open>float64\<close> moves a number by at most half a
  unit in the last place.
\<close>

lemma round_half_even_close: "\<bar>of_int (round_half_even y) - y\<bar> \<le> 1 / 2"
proof -
  define f where "f = \<lfloor>y\<rfloor>"
  define r where "r = y - of_int f"
  have r: "0 \<le> r" "r < 1"
    unfolding r_def f_def by linarith+
  have y: "y = of_int f + r"
    by (simp add: r_def)
  have "round_half_even y =
          (if r < 1 / 2 then f else if 1 / 2 < r then f + 1 else if even f then f else f + 1)"
    by (simp add: round_half_even_def Let_def f_def r_def)
  then show ?thesis
    using r unfolding y by (simp split: if_splits)
qed


lemma bit_length_bounds:
  "0 < n \<Longrightarrow> n < 2 ^ bit_length n \<and> 2 ^ bit_length n \<le> 2 * n"
proof (induction n rule: bit_length.induct)
  case (1 n)
  show ?case
  proof (cases "n = 1")
    case True
    have "bit_length 1 = Suc (bit_length 0)"
      by (subst bit_length.simps) simp
    also have "bit_length 0 = 0"
      by (subst bit_length.simps) simp
    finally show ?thesis
      using True by simp
  next
    case False
    with "1.prems" have half: "0 < n div 2"
      by simp
    with "1.IH" "1.prems" have ih: "n div 2 < 2 ^ bit_length (n div 2)"
      "2 ^ bit_length (n div 2) \<le> 2 * (n div 2)"
      by simp_all
    have len: "bit_length n = Suc (bit_length (n div 2))"
      using "1.prems" by (subst bit_length.simps) simp
    have "n \<le> 2 * (n div 2) + 1" "2 * (n div 2) \<le> n"
      by presburger+
    with ih show ?thesis
      unfolding len by simp
  qed
qed

lemma pow2_powi: "pow2 e = 2 powi e"
  by (simp add: pow2_def power_int_def inverse_eq_divide power_one_over)

lemma pow2_pos: "0 < pow2 e"
  by (simp add: pow2_powi)

lemma pow2_Suc: "pow2 (e + 1) = 2 * pow2 e"
  by (simp add: pow2_powi power_int_add)

lemma pow2_diff: "pow2 (int a - int b) = 2 ^ a / 2 ^ b"
  by (simp add: pow2_powi power_int_diff)

lemma float_exponent_bounds:
  assumes "x \<noteq> 0"
  shows "pow2 (float_exponent x) \<le> \<bar>x\<bar> \<and> \<bar>x\<bar> < pow2 (float_exponent x + 1)"
proof -
  obtain p q where pq: "quotient_of \<bar>x\<bar> = (p, q)"
    by (cases "quotient_of \<bar>x\<bar>")
  then have q: "0 < q" and x: "\<bar>x\<bar> = of_int p / of_int q"
    by (simp_all add: quotient_of_denom_pos quotient_of_div)
  from assms have "0 < \<bar>x\<bar>"
    by simp
  with q x have p: "0 < p"
    by (simp add: zero_less_divide_iff)
  let ?a = "bit_length p" and ?b = "bit_length q"
  let ?e = "int ?a - int ?b"
  from bit_length_bounds [OF p] have pb: "rat_of_int p < 2 ^ ?a" "(2::rat) ^ ?a \<le> 2 * of_int p"
    by (metis of_int_less_iff of_int_numeral of_int_power, metis of_int_le_iff of_int_numeral of_int_power of_int_mult)
  from bit_length_bounds [OF q] have qb: "rat_of_int q < 2 ^ ?b" "(2::rat) ^ ?b \<le> 2 * of_int q"
    by (metis of_int_less_iff of_int_numeral of_int_power, metis of_int_le_iff of_int_numeral of_int_power of_int_mult)
  have qpos: "0 < rat_of_int q" and ppos: "0 < rat_of_int p"
    using q p by simp_all
  have upper: "\<bar>x\<bar> < 2 * pow2 ?e"
  proof -
    have "rat_of_int p * 2 ^ ?b < 2 ^ ?a * (2 * rat_of_int q)"
      using ppos by (intro mult_less_le_imp_less [OF pb(1) qb(2)]) simp_all
    then have "rat_of_int p / rat_of_int q < 2 * (2 ^ ?a / 2 ^ ?b)"
      using qpos by (simp add: field_simps)
    then show ?thesis
      by (simp add: x pow2_diff)
  qed
  have lower: "pow2 (?e - 1) \<le> \<bar>x\<bar>"
  proof -
    have "2 ^ ?a * rat_of_int q \<le> (2 * rat_of_int p) * 2 ^ ?b"
      using ppos qpos qb(1) by (intro mult_mono [OF pb(2)]) simp_all
    then have "(2 ^ ?a / 2 ^ ?b) / 2 \<le> rat_of_int p / rat_of_int q"
      using qpos by (simp add: field_simps)
    moreover have "pow2 (?e - 1) = pow2 ?e / 2"
      using pow2_Suc [of "?e - 1"] by simp
    ultimately show ?thesis
      by (simp add: x pow2_diff)
  qed
  have fe: "float_exponent x = (if pow2 ?e \<le> \<bar>x\<bar> then ?e else ?e - 1)"
    by (simp add: float_exponent_def pq Let_def)
  show ?thesis
  proof (cases "pow2 ?e \<le> \<bar>x\<bar>")
    case True
    with upper show ?thesis
      by (simp add: fe pow2_Suc)
  next
    case False
    with lower show ?thesis
      by (simp add: fe)
  qed
qed

lemma float64_close:
  assumes "x \<noteq> 0"
  shows "\<bar>float64 x - x\<bar> \<le> pow2 (max (float_exponent x) (- 1022) - 52) / 2"
proof -
  let ?ulp = "pow2 (max (float_exponent x) (- 1022) - 52)"
  have u: "0 < ?ulp"
    by (rule pow2_pos)
  have "float64 x - x = (of_int (round_half_even (x / ?ulp)) - x / ?ulp) * ?ulp"
    using assms u by (simp add: float64_def Let_def algebra_simps)
  then have "\<bar>float64 x - x\<bar> = \<bar>of_int (round_half_even (x / ?ulp)) - x / ?ulp\<bar> * ?ulp"
    using u by (simp add: abs_mult)
  also have "\<dots> \<le> (1 / 2) * ?ulp"
    using u round_half_even_close [of "x / ?ulp"]
    by (intro mult_right_mono) simp_all
  finally show ?thesis
    by simp
qed

subsection \<open>Result display\<close>

lemma float_thresholds: "float64 (4 / 10) < float64 (7 / 10)"
  by code_simp

lemma delta_low_example: "delta (float64 (401 / 10000)) = ''Low''"
  by code_simp

text \<open>
  C5. For every confidence \<open>c\<close> the bucket of the top prediction is High exactly when
  \<open>c > 0.70\<close>, Medium exactly when \<open>0.40 < c \<le> 0.70\<close> and Low exactly when
  \<open>c \<le> 0.40\<close>, the thresholds being the floats that the literals \<^verbatim>\<open>0.7\<close> and
  \<^verbatim>\<open>0.4\<close> denote, which are also what the JSON texts 0.70 and 0.4 decode to. In
  particular a confidence of 0.4 is Low, one of 0.70 is Medium, and 0.0401 is Low.
\<close>

theorem delta_buckets:
  "(delta c = ''High'' \<longleftrightarrow> float64 (7 / 10) < c) \<and>
   (delta c = ''Medium'' \<longleftrightarrow> float64 (4 / 10) < c \<and> c \<le> float64 (7 / 10)) \<and>
   (delta c = ''Low'' \<longleftrightarrow> c \<le> float64 (4 / 10)) \<and>
   delta (float64 (4 / 10)) = ''Low'' \<and>
   delta (float64 (7 / 10)) = ''Medium'' \<and>
   delta (float64 (401 / 10000)) = ''Low''"
  using float_thresholds delta_low_example by (auto simp: delta_def)

lemma ranked_rows_pairs:
  "map (\<lambda>(idx, label, confidence, md). (label, confidence))
     (map (\<lambda>(idx, (label, confidence)).
             (idx, label, confidence, ''**'' @ row_percentage confidence @ ''**''))
        (enumerate n preds)) = preds"
  by (induction preds arbitrary: n) auto

lemma ranked_rows_indices:
  "map fst
     (map (\<lambda>(idx, (label, confidence)).
             (idx, label, confidence, ''**'' @ row_percentage confidence @ ''**''))
        (enumerate n preds)) = [n..<n + length preds]"
  by (induction preds arbitrary: n) (auto simp: upt_rec)

lemma delta_high_example: "delta (float64 (91 / 100)) = ''High''"
  by code_simp

text \<open>
  C6. For every non-empty mapping of predictions, the ranked rows carry the labels and
  confidences of the mapping in the order received, numbered 1, 2, 3, ... (nothing is
  sorted), and the top summary is the label and confidence of the mapping's first entry,
  with that confidence's bucket.
\<close>

theorem ranked_rows_preserve_order:
  assumes "preds \<noteq> []"
  shows "map (\<lambda>(idx, label, confidence, md). (label, confidence)) (ranked_rows preds) = preds \<and>
         map fst (ranked_rows preds) = [1..<Suc (length preds)] \<and>
         (\<exists>label confidence rest. preds = (label, confidence) # rest \<and>
            top_summary preds = Some (label, confidence, delta confidence))"
proof -
  obtain label confidence rest where p: "preds = (label, confidence) # rest"
    using assms by (cases preds) auto
  have "top_summary preds = Some (label, confidence, delta confidence)"
    by (simp add: p top_summary_def first_item_def)
  with p show ?thesis
    using ranked_rows_pairs [of 1 preds] ranked_rows_indices [of 1 preds]
    by (simp add: ranked_rows_def)
qed

theorem ranked_rows_preserve_order_witness:
  "get_predictions (mock_server 200 dog_body) ''jpeg'' =
     (True, PDict (map (\<lambda>(l, c). (l, PFloat c)) dog_predictions), None) \<and>
   map (\<lambda>(idx, label, confidence, md). (idx, label)) (ranked_rows dog_predictions) =
     [(1, ''dog''), (2, ''cat''), (3, ''fox'')] \<and>
   top_summary dog_predictions = Some (''dog'', float64 (91 / 100), ''High'')"
proof -
  have "get_predictions (mock_server 200 dog_body) ''jpeg'' =
          (True, PDict (map (\<lambda>(l, c). (l, PFloat c)) dog_predictions), None)"
    by (simp add: get_predictions_def send_request_def mock_server_def mock_json_loads_def
          oom_body_def dog_body_def)
  then show ?thesis
    using ranked_rows_preserve_order [of dog_predictions] delta_high_example
    by (simp add: dog_predictions_def ranked_rows_def enumerate_eq_zip upt_rec)
qed

subsection \<open>Percentage text\<close>


















end
